theory Spec2Isabelle
  imports Complex_Main "HOL-Library.Sublist" "HOL-Library.Char_ord" "HOL-Library.List_Lexorder"
begin

section \<open>Strings as Python uses them\<close>

text \<open>
  Labels are ASCII strings. \<open>lower\<close> is Python's \<open>str.lower\<close> on ASCII letters,
  \<open>strip\<close> is \<open>str.strip()\<close> with the ASCII whitespace of \<open>str.isspace\<close>
  (TAB, LF, VT, FF, CR, FS, GS, RS, US and space), and \<open>py_in t s\<close> is the substring
  test \<open>t in s\<close>.
\<close>

definition lower_char :: "char \<Rightarrow> char" where
  "lower_char c =
     (case map_of (zip ''ABCDEFGHIJKLMNOPQRSTUVWXYZ'' ''abcdefghijklmnopqrstuvwxyz'') c of
        Some d \<Rightarrow> d
      | None \<Rightarrow> c)"

definition lower :: "string \<Rightarrow> string" where
  "lower s = map lower_char s"

definition isspace :: "char \<Rightarrow> bool" where
  "isspace c =
     (c \<in> set [CHR 0x09, CHR 0x0A, CHR 0x0B, CHR 0x0C, CHR 0x0D,
                CHR 0x1C, CHR 0x1D, CHR 0x1E, CHR 0x1F, CHR '' ''])"

definition strip :: "string \<Rightarrow> string" where
  "strip s = rev (dropWhile isspace (rev (dropWhile isspace s)))"

fun py_in :: "string \<Rightarrow> string \<Rightarrow> bool" where
  "py_in t [] = (t = [])"
| "py_in t (c # cs) = (prefix t (c # cs) \<or> py_in t cs)"

section \<open>iot.py: type normalisation\<close>

text \<open>
  \<open>normalize_sensor_type\<close>: the label is lowercased and stripped, then tested against
  four keyword lists in the order of the source's \<open>if\<close> statements.
\<close>

definition normalize_sensor_type :: "string \<Rightarrow> string" where
  "normalize_sensor_type sensor_type0 =
     (let sensor_type = strip (lower sensor_type0) in
      if list_ex (\<lambda>term. py_in term sensor_type) [''temp'', ''temperature'', ''thermal'']
      then ''temperature''
      else if list_ex (\<lambda>term. py_in term sensor_type) [''humidity'', ''moisture'', ''rh'']
      then ''humidity''
      else if list_ex (\<lambda>term. py_in term sensor_type)
                [''tension'', ''pressure'', ''force'', ''stress'']
      then ''tension''
      else if list_ex (\<lambda>term. py_in term sensor_type)
                [''vibration'', ''vibr'', ''oscillation'', ''shake'']
      then ''vibration''
      else sensor_type)"

text \<open>
  The specification's reading of the normaliser: a fixed priority table of canonical
  types with their keyword sets; a keyword matches a label when it occurs in the
  lowercased label as a contiguous substring.
\<close>

definition keyword_table :: "(string \<times> string list) list" where
  "keyword_table =
     [(''temperature'', [''temp'', ''temperature'', ''thermal'']),
      (''humidity'', [''humidity'', ''moisture'', ''rh'']),
      (''tension'', [''tension'', ''pressure'', ''force'', ''stress'']),
      (''vibration'', [''vibration'', ''vibr'', ''oscillation'', ''shake''])]"

definition ci_substring :: "string \<Rightarrow> string \<Rightarrow> bool" where
  "ci_substring k label = (\<exists>ps ss. lower label = ps @ lower k @ ss)"

definition normalize_spec :: "string \<Rightarrow> string" where
  "normalize_spec label =
     (case find (\<lambda>(c, kws). \<exists>k \<in> set kws. ci_substring k label) keyword_table of
        Some (c, kws) \<Rightarrow> c
      | None \<Rightarrow> strip (lower label))"

section \<open>iot.py: threshold alerts raised at ingestion\<close>

datatype severity = Low | Medium | High | Critical

datatype alert_type = Threshold_violation | Critical_threshold

text \<open>
  The \<open>Sensor\<close> row of machine.py: \<open>min_value\<close> and \<open>max_value\<close> are nullable
  floats. The \<open>Alert\<close> row without its message text (an f-string over the float).
\<close>

record sensor =
  sensor_id :: int
  sensor_machine_id :: int
  sensor_name :: string
  sensor_type :: string
  sensor_unit :: string
  min_value :: "real option"
  max_value :: "real option"

record alert =
  alert_machine_id :: int
  alert_sensor_id :: int
  alert_type :: alert_type
  alert_severity :: severity

definition mk_alert :: "sensor \<Rightarrow> alert_type \<Rightarrow> severity \<Rightarrow> alert" where
  "mk_alert s t sev =
     \<lparr>alert_machine_id = sensor_machine_id s, alert_sensor_id = sensor_id s,
      alert_type = t, alert_severity = sev\<rparr>"

definition critical_thresholds :: "(string \<times> real \<times> real) list" where
  "critical_thresholds =
     [(''temperature'', (-40, 120)), (''humidity'', (5, 95)),
      (''tension'', (-100, 800)), (''vibration'', (-10, 80))]"

definition check_critical_thresholds :: "sensor \<Rightarrow> real \<Rightarrow> alert option" where
  "check_critical_thresholds s v =
     (case map_of critical_thresholds (sensor_type s) of
        None \<Rightarrow> None
      | Some (lo, hi) \<Rightarrow>
          if v < lo \<or> v > hi then Some (mk_alert s Critical_threshold Critical) else None)"

text \<open>
  \<open>check_sensor_thresholds\<close> returns the alerts it adds to the database session, in
  order. Comparing the value with a null bound raises \<open>TypeError\<close>, which the
  function's \<open>except\<close> swallows: the alerts added before the raise stay added and the
  rest of the body is skipped.
\<close>

definition check_sensor_thresholds :: "sensor \<Rightarrow> real \<Rightarrow> alert list" where
  "check_sensor_thresholds s v =
     (case min_value s of
        None \<Rightarrow> []
      | Some lo \<Rightarrow>
          (let below = (if v < lo then [mk_alert s Threshold_violation Medium] else [])
           in case max_value s of
                None \<Rightarrow> below
              | Some hi \<Rightarrow>
                  below
                  @ (if v > hi
                     then [mk_alert s Threshold_violation
                             (if v > hi * 1.2 then High else Medium)]
                     else [])
                  @ (case check_critical_thresholds s v of
                       None \<Rightarrow> []
                     | Some a \<Rightarrow> [a])))"

section \<open>predictive_analytics.py: frames and series\<close>

text \<open>
  A pandas frame as the analytics engine sees it: the \<open>timestamp\<close> column (instants as
  integers) and the numeric columns in column order. A cell is a float or NaN
  (\<open>None\<close>). Every column of a well-formed frame has one cell per timestamp.
\<close>

type_synonym cell = "real option"

type_synonym series = "cell list"

record frame =
  timestamps :: "int list"
  columns :: "(string \<times> series) list"

definition empty_frame :: frame where
  "empty_frame = \<lparr>timestamps = [], columns = []\<rparr>"

definition nrows :: "frame \<Rightarrow> nat" where
  "nrows df = length (timestamps df)"

definition is_empty :: "frame \<Rightarrow> bool" where
  "is_empty df = (timestamps df = [])"

definition column_names :: "frame \<Rightarrow> string list" where
  "column_names df = map fst (columns df)"

definition nth_cell :: "series \<Rightarrow> nat \<Rightarrow> cell" where
  "nth_cell xs i = (if i < length xs then xs ! i else None)"

text \<open>\<open>df[name] = xs\<close>: an existing column is replaced in place, a new one is appended.\<close>

fun assign :: "(string \<times> series) list \<Rightarrow> string \<Rightarrow> series \<Rightarrow> (string \<times> series) list" where
  "assign [] name xs = [(name, xs)]"
| "assign ((n, ys) # cs) name xs =
     (if n = name then (n, xs) # cs else (n, ys) # assign cs name xs)"

definition tail :: "nat \<Rightarrow> 'a list \<Rightarrow> 'a list" where
  "tail k xs = drop (length xs - k) xs"

definition tail_frame :: "nat \<Rightarrow> frame \<Rightarrow> frame" where
  "tail_frame k df =
     \<lparr>timestamps = tail k (timestamps df),
      columns = map (\<lambda>(n, xs). (n, tail k xs)) (columns df)\<rparr>"

text \<open>
  Series statistics with pandas' defaults: NaN cells are skipped, \<open>std\<close> is the sample
  standard deviation (\<open>ddof=1\<close>) and is NaN below two observations, \<open>mean\<close> is NaN
  without an observation.
\<close>

definition dropna :: "series \<Rightarrow> real list" where
  "dropna xs = List.map_filter id xs"

definition series_mean :: "series \<Rightarrow> cell" where
  "series_mean xs =
     (let vs = dropna xs in
      if vs = [] then None else Some (sum_list vs / real (length vs)))"

definition series_var :: "series \<Rightarrow> cell" where
  "series_var xs =
     (let vs = dropna xs; n = length vs in
      if n < 2 then None
      else (let m = sum_list vs / real n
            in Some (sum_list (map (\<lambda>v. (v - m)\<^sup>2) vs) / real (n - 1))))"

definition series_std :: "series \<Rightarrow> cell" where
  "series_std xs = map_option sqrt (series_var xs)"

text \<open>\<open>rolling(window=w, min_periods=1)\<close>: the trailing window ending at row \<open>i\<close>.\<close>

definition window :: "nat \<Rightarrow> nat \<Rightarrow> series \<Rightarrow> series" where
  "window w i xs = drop (Suc i - w) (take (Suc i) xs)"

definition rolling_mean :: "nat \<Rightarrow> series \<Rightarrow> series" where
  "rolling_mean w xs = map (\<lambda>i. series_mean (window w i xs)) [0..<length xs]"

definition rolling_std :: "nat \<Rightarrow> series \<Rightarrow> series" where
  "rolling_std w xs = map (\<lambda>i. series_std (window w i xs)) [0..<length xs]"

definition sub_cell :: "cell \<Rightarrow> cell \<Rightarrow> cell" where
  "sub_cell a b = (case (a, b) of (Some x, Some y) \<Rightarrow> Some (x - y) | _ \<Rightarrow> None)"

definition diff :: "series \<Rightarrow> series" where
  "diff xs = (case xs of [] \<Rightarrow> [] | x # rest \<Rightarrow> None # map2 (\<lambda>prev cur. sub_cell cur prev) xs rest)"

definition fillna :: "real \<Rightarrow> series \<Rightarrow> series" where
  "fillna d xs = map (\<lambda>c. case c of None \<Rightarrow> Some d | Some v \<Rightarrow> Some v) xs"

section \<open>predictive_analytics.py: create_features\<close>

definition feature_columns :: "string list" where
  "feature_columns = [''temperature'', ''humidity'', ''tension'', ''vibration'']"

text \<open>
  The z-score column: \<open>(feature_df[col] - mean_val) / std_val\<close> when \<open>std_val > 0\<close>,
  the constant 0 otherwise (also when \<open>std_val\<close> is NaN, where the comparison is false).
\<close>

definition zscore :: "series \<Rightarrow> series" where
  "zscore xs =
     (let mean_val = series_mean xs; std_val = series_std xs in
      case std_val of
        None \<Rightarrow> replicate (length xs) (Some 0)
      | Some s \<Rightarrow>
          if s > 0
          then map (\<lambda>c. case (c, mean_val) of
                           (Some v, Some m) \<Rightarrow> Some ((v - m) / s)
                         | _ \<Rightarrow> None) xs
          else replicate (length xs) (Some 0))"

text \<open>The body of the loop over \<open>self.feature_columns\<close>, for one channel.\<close>

definition add_features :: "string \<Rightarrow> (string \<times> series) list \<Rightarrow> (string \<times> series) list" where
  "add_features col cols =
     (case map_of cols col of
        None \<Rightarrow> cols
      | Some xs \<Rightarrow>
          (let c1 = assign cols (col @ ''_rolling_mean'') (rolling_mean 10 xs);
               c2 = assign c1 (col @ ''_rolling_std'') (rolling_std 10 xs);
               c3 = assign c2 (col @ ''_rate_of_change'') (diff xs)
           in assign c3 (col @ ''_zscore'') (zscore xs)))"

definition create_features :: "frame \<Rightarrow> frame" where
  "create_features df =
     (if is_empty df then df
      else df\<lparr>columns :=
                map (\<lambda>(n, xs). (n, fillna 0 xs))
                  (fold add_features feature_columns (columns df))\<rparr>)"

section \<open>predictive_analytics.py: preprocess_sensor_data\<close>

text \<open>
  A reading as the analytics routes build it: sensor type, value and timestamp. The
  pivot has one row per distinct timestamp and one column per distinct sensor type, both
  sorted; a cell is the mean of the readings of that type at that instant, NaN without
  one; then \<open>ffill\<close> and \<open>bfill\<close> run down each column. A sensor type named
  \<open>timestamp\<close> gives the pivot a column of the index's name, \<open>reset_index\<close> raises,
  and the function's \<open>except\<close> returns the empty frame.
\<close>

record reading =
  r_sensor_type :: string
  r_value :: real
  r_timestamp :: int

fun ffill_from :: "cell \<Rightarrow> series \<Rightarrow> series" where
  "ffill_from prev [] = []"
| "ffill_from prev (c # cs) =
     (case c of
        None \<Rightarrow> prev # ffill_from prev cs
      | Some v \<Rightarrow> Some v # ffill_from (Some v) cs)"

definition ffill :: "series \<Rightarrow> series" where
  "ffill xs = ffill_from None xs"

definition bfill :: "series \<Rightarrow> series" where
  "bfill xs = rev (ffill (rev xs))"

definition pivot_cell :: "reading list \<Rightarrow> int \<Rightarrow> string \<Rightarrow> cell" where
  "pivot_cell rs t st =
     series_mean (map (\<lambda>r. Some (r_value r))
                    (filter (\<lambda>r. r_timestamp r = t \<and> r_sensor_type r = st) rs))"

definition preprocess_sensor_data :: "reading list \<Rightarrow> frame" where
  "preprocess_sensor_data rs =
     (if rs = [] then empty_frame
      else if list_ex (\<lambda>r. r_sensor_type r = ''timestamp'') rs then empty_frame
      else (let ts = sort (remdups (map r_timestamp rs));
                types = sort (remdups (map r_sensor_type rs))
            in \<lparr>timestamps = ts,
                columns = map (\<lambda>st. (st, bfill (ffill (map (\<lambda>t. pivot_cell rs t st) ts))))
                            types\<rparr>))"

section \<open>predictive_analytics.py: the engine and its anomaly model\<close>

text \<open>
  The fitted scikit-learn objects are taken as given. A \<open>StandardScaler\<close> holds one
  mean (\<open>mean_\<close>) and one scale (\<open>scale_\<close>) per feature and refuses a row of another
  width; an \<open>IsolationForest\<close> labels a row (\<open>-1\<close> anomaly, \<open>1\<close> normal) and scores it, and
  refuses NaN. Both act on each row of the matrix on its own.
\<close>

record standard_scaler =
  sc_mean :: "real list"
  sc_scale :: "real list"

record isolation_forest =
  predict :: "real list \<Rightarrow> int"
  decision_function :: "real list \<Rightarrow> real"

record limits =
  lim_min :: real
  lim_max :: real

type_synonym thresholds = "(string \<times> limits) list"

record predictive_analytics =
  anomaly_model :: "isolation_forest option"
  scaler :: "standard_scaler option"
  threshold_rules :: "int \<rightharpoonup> thresholds"

text \<open>
  The model directory on disk: what \<open>save_models\<close> wrote, if anything. The constructor
  starts from no model, no scaler and an empty rule dictionary, then \<open>load_models\<close>
  reads the files that exist.
\<close>

record model_store =
  stored_model :: "isolation_forest option"
  stored_scaler :: "standard_scaler option"

definition PredictiveAnalytics :: "model_store \<Rightarrow> predictive_analytics" where
  "PredictiveAnalytics store =
     \<lparr>anomaly_model = stored_model store, scaler = stored_scaler store,
      threshold_rules = Map.empty\<rparr>"

definition set_threshold_rules ::
  "predictive_analytics \<Rightarrow> int \<Rightarrow> thresholds \<Rightarrow> predictive_analytics" where
  "set_threshold_rules pa machine_id ths =
     pa\<lparr>threshold_rules := (threshold_rules pa)(machine_id \<mapsto> ths)\<rparr>"

definition calculate_severity :: "real \<Rightarrow> severity" where
  "calculate_severity anomaly_score =
     (if anomaly_score < -0.5 then Critical
      else if anomaly_score < -0.3 then High
      else if anomaly_score < -0.1 then Medium
      else Low)"

text \<open>
  \<open>_identify_affected_sensors\<close>: \<open>data_row\<close> is a row of the feature frame as an
  association list from column name to cell. The inner step is the body of the loop
  over \<open>sensor_features\<close>; a NaN cell fails the comparison.
\<close>

definition affected_step ::
  "(string \<times> cell) list \<Rightarrow> string \<Rightarrow> string \<Rightarrow> string list \<Rightarrow> string list" where
  "affected_step data_row sensor feature affected_sensors =
     (case map_of data_row feature of
        None \<Rightarrow> affected_sensors
      | Some c \<Rightarrow>
          (case c of
             None \<Rightarrow> affected_sensors
           | Some v \<Rightarrow>
               if \<bar>v\<bar> > 2
               then (if sensor \<notin> set affected_sensors then affected_sensors @ [sensor]
                     else affected_sensors)
               else affected_sensors))"

definition identify_affected_sensors :: "(string \<times> cell) list \<Rightarrow> string list \<Rightarrow> string list" where
  "identify_affected_sensors data_row feature_cols =
     fold (\<lambda>sensor affected_sensors.
             fold (affected_step data_row sensor)
               (filter (\<lambda>col. py_in sensor col) feature_cols) affected_sensors)
       feature_columns []"

record anomaly =
  an_index :: nat
  an_timestamp :: int
  anomaly_score :: real
  an_severity :: severity
  affected_sensors :: "string list"

definition row_at :: "frame \<Rightarrow> nat \<Rightarrow> (string \<times> cell) list" where
  "row_at df i = map (\<lambda>(n, xs). (n, nth_cell xs i)) (columns df)"

text \<open>
  The columns whose name contains a channel name. The \<open>timestamp\<close> column contains
  none of the four and is never selected.
\<close>

definition select_feature_cols :: "frame \<Rightarrow> string list" where
  "select_feature_cols df =
     filter (\<lambda>col. list_ex (\<lambda>sensor. py_in sensor col) feature_columns) (column_names df)"

definition matrix_row :: "frame \<Rightarrow> string list \<Rightarrow> nat \<Rightarrow> cell list" where
  "matrix_row df cols i =
     map (\<lambda>c. case map_of (columns df) c of None \<Rightarrow> None | Some xs \<Rightarrow> nth_cell xs i) cols"

text \<open>
  \<open>scaler.transform(X)\<close> followed by the forest's input check, one row at a time:
  \<open>None\<close> is the \<open>ValueError\<close> of a width mismatch or of a NaN.
\<close>

definition transform_row :: "standard_scaler \<Rightarrow> cell list \<Rightarrow> real list option" where
  "transform_row sc row =
     (if length row \<noteq> length (sc_mean sc) then None
      else (case those row of
              None \<Rightarrow> None
            | Some vs \<Rightarrow> Some (map (\<lambda>(v, m, s). (v - m) / s) (zip vs (zip (sc_mean sc) (sc_scale sc))))))"

definition detect_anomalies :: "predictive_analytics \<Rightarrow> frame \<Rightarrow> anomaly list" where
  "detect_anomalies pa sensor_data =
     (case anomaly_model pa of
        None \<Rightarrow> []
      | Some model \<Rightarrow>
          (case scaler pa of
             None \<Rightarrow> []
           | Some sc \<Rightarrow>
               if is_empty sensor_data then []
               else (let feature_data = create_features sensor_data;
                         feature_cols = select_feature_cols feature_data
                     in if feature_cols = [] then []
                        else (case those (map (\<lambda>i. transform_row sc (matrix_row feature_data feature_cols i))
                                            [0..<nrows feature_data]) of
                                None \<Rightarrow> []
                              | Some X_scaled \<Rightarrow>
                                  concat (map (\<lambda>(i, x).
                                      if predict model x = -1
                                      then [\<lparr>an_index = i,
                                             an_timestamp = timestamps feature_data ! i,
                                             anomaly_score = decision_function model x,
                                             an_severity = calculate_severity (decision_function model x),
                                             affected_sensors =
                                               identify_affected_sensors (row_at feature_data i) feature_cols\<rparr>]
                                      else [])
                                    (enumerate 0 X_scaled))))))"

section \<open>predictive_analytics.py: check_thresholds\<close>

record violation =
  v_sensor_type :: string
  v_value :: real
  threshold_min :: real
  threshold_max :: real
  v_severity :: severity
  v_timestamp :: int

definition default_thresholds :: thresholds where
  "default_thresholds =
     [(''temperature'', \<lparr>lim_min = -10, lim_max = 80\<rparr>),
      (''humidity'', \<lparr>lim_min = 0, lim_max = 100\<rparr>),
      (''tension'', \<lparr>lim_min = 0, lim_max = 1000\<rparr>),
      (''vibration'', \<lparr>lim_min = 0, lim_max = 50\<rparr>)]"

text \<open>The violation dictionary built for a rule that the latest value breaks.\<close>

definition rule_violation :: "frame \<Rightarrow> string \<Rightarrow> limits \<Rightarrow> real \<Rightarrow> violation" where
  "rule_violation df stype limits v =
     \<lparr>v_sensor_type = stype, v_value = v,
      threshold_min = lim_min limits, threshold_max = lim_max limits,
      v_severity =
        (if v < lim_min limits * 0.5 \<or> v > lim_max limits * 1.5 then High else Medium),
      v_timestamp = last (timestamps df)\<rparr>"

text \<open>
  The loop over \<open>thresholds.items()\<close> on the latest row. \<open>None\<close> is a raised
  exception: a rule keyed \<open>timestamp\<close> compares the row's timestamp with a number,
  a \<open>TypeError\<close>. A NaN cell fails both comparisons.
\<close>

fun check_rules :: "frame \<Rightarrow> thresholds \<Rightarrow> violation list option" where
  "check_rules df [] = Some []"
| "check_rules df ((stype, limits) # rest) =
     (if stype = ''timestamp'' then None
      else (case map_of (columns df) stype of
              None \<Rightarrow> check_rules df rest
            | Some xs \<Rightarrow>
                (case nth_cell xs (nrows df - 1) of
                   None \<Rightarrow> check_rules df rest
                 | Some v \<Rightarrow>
                     if v < lim_min limits \<or> v > lim_max limits
                     then map_option ((#) (rule_violation df stype limits v))
                            (check_rules df rest)
                     else check_rules df rest)))"

definition check_thresholds :: "predictive_analytics \<Rightarrow> frame \<Rightarrow> int \<Rightarrow> violation list" where
  "check_thresholds pa sensor_data machine_id =
     (if is_empty sensor_data then []
      else (let thresholds = (case threshold_rules pa machine_id of
                                None \<Rightarrow> default_thresholds
                              | Some ths \<Rightarrow> ths)
            in case check_rules sensor_data thresholds of
                 None \<Rightarrow> []
               | Some violations \<Rightarrow> violations))"

section \<open>predictive_analytics.py: predict_failure_probability\<close>

record failure_prediction =
  failure_probability :: real
  confidence :: real
  time_to_failure_hours :: "nat option"
  contributing_factors :: "string list"

definition neutral_prediction :: failure_prediction where
  "neutral_prediction =
     \<lparr>failure_probability = 0, confidence = 0, time_to_failure_hours = None,
      contributing_factors = []\<rparr>"

text \<open>Decimal digits of a count, for the f-string of the anomaly factor.\<close>

function show_nat :: "nat \<Rightarrow> string" where
  "show_nat n =
     (if n < 10 then [''0123456789'' ! n]
      else show_nat (n div 10) @ [''0123456789'' ! (n mod 10)])"
  by pat_completeness auto
termination
  by (relation "measure id") auto

text \<open>
  \<open>np.polyfit(np.arange(n), y, 1)[0]\<close>: the slope of the least-squares line through
  the points \<open>(0, y\<^sub>0), \<dots>, (n-1, y\<^bsub>n-1\<^esub>)\<close>.
\<close>

definition polyfit_slope :: "real list \<Rightarrow> real" where
  "polyfit_slope ys =
     (let n = length ys;
          xs = map real [0..<n];
          xbar = sum_list xs / real n;
          ybar = sum_list ys / real n
      in sum_list (map (\<lambda>(x, y). (x - xbar) * (y - ybar)) (zip xs ys))
         / sum_list (map (\<lambda>x. (x - xbar)\<^sup>2) xs))"

text \<open>
  One round of the trend loop. The outer \<open>None\<close> is the exception the fit raises on
  a NaN; the inner \<open>None\<close> means no entry is written to \<open>trends\<close>.
\<close>

definition trend_of :: "frame \<Rightarrow> string \<Rightarrow> real option option" where
  "trend_of feature_data sensor =
     (case map_of (columns feature_data) sensor of
        None \<Rightarrow> Some None
      | Some xs \<Rightarrow>
          (let recent_data = tail 20 xs in
           if length recent_data > 1
           then (case those recent_data of
                   None \<Rightarrow> None
                 | Some ys \<Rightarrow> Some (Some (polyfit_slope ys)))
           else Some None))"

definition compute_trends :: "frame \<Rightarrow> (string \<times> real) list option" where
  "compute_trends feature_data =
     map_option
       (\<lambda>ts. concat (map (\<lambda>(sensor, t). case t of None \<Rightarrow> [] | Some slope \<Rightarrow> [(sensor, slope)])
                       (zip feature_columns ts)))
       (those (map (trend_of feature_data) feature_columns))"

text \<open>
  The heuristic's two running variables, \<open>failure_indicators\<close> and
  \<open>contributing_factors\<close>, as a pair; each \<open>if\<close> block of the source is one step on
  the pair, in the source's order.
\<close>

type_synonym indicators = "nat \<times> string list"

definition temperature_step :: "(string \<times> real) list \<Rightarrow> indicators \<Rightarrow> indicators" where
  "temperature_step trends st =
     (case map_of trends ''temperature'' of
        None \<Rightarrow> st
      | Some slope \<Rightarrow>
          if slope > 1.0 then (fst st + 2, snd st @ [''Rising temperature trend'']) else st)"

definition vibration_step :: "(string \<times> real) list \<Rightarrow> indicators \<Rightarrow> indicators" where
  "vibration_step trends st =
     (case map_of trends ''vibration'' of
        None \<Rightarrow> st
      | Some slope \<Rightarrow>
          if slope > 0.5 then (fst st + 2, snd st @ [''Increasing vibration'']) else st)"

definition humidity_step :: "(string \<times> real) list \<Rightarrow> indicators \<Rightarrow> indicators" where
  "humidity_step trends st =
     (case map_of trends ''humidity'' of
        None \<Rightarrow> st
      | Some slope \<Rightarrow>
          if \<bar>slope\<bar> > 2.0 then (fst st + 1, snd st @ [''Unstable humidity'']) else st)"

definition anomalies_step :: "anomaly list \<Rightarrow> indicators \<Rightarrow> indicators" where
  "anomalies_step recent_anomalies st =
     (if recent_anomalies \<noteq> []
      then (fst st + length recent_anomalies,
            snd st @ [show_nat (length recent_anomalies) @ '' recent anomalies detected''])
      else st)"

definition predict_failure_probability ::
  "predictive_analytics \<Rightarrow> frame \<Rightarrow> failure_prediction" where
  "predict_failure_probability pa sensor_data =
     (if is_empty sensor_data \<or> nrows sensor_data < 10 then neutral_prediction
      else
        (let feature_data = create_features sensor_data in
         case compute_trends feature_data of
           None \<Rightarrow> neutral_prediction
         | Some trends \<Rightarrow>
             (let st = humidity_step trends (vibration_step trends (temperature_step trends (0, [])));
                  recent_anomalies = detect_anomalies pa (tail_frame 10 feature_data);
                  (failure_indicators, factors) = anomalies_step recent_anomalies st;
                  probability = min (real failure_indicators / 10) 1
              in \<lparr>failure_probability = probability,
                  confidence = (if nrows sensor_data > 100 then 0.8 else 0.6),
                  time_to_failure_hours =
                    (if probability > 0.7 then Some 24
                     else if probability > 0.5 then Some 72
                     else if probability > 0.3 then Some 168
                     else None),
                  contributing_factors = factors\<rparr>)))"

section \<open>predictive_analytics.py: analyze_machine_health\<close>

datatype health_status = Healthy | Attention | Warning | Critical_health

record health_analysis =
  ha_machine_id :: int
  ha_health_status :: health_status
  ha_failure_prediction :: failure_prediction
  ha_anomalies :: "anomaly list"
  ha_threshold_violations :: "violation list"

text \<open>
  The result dictionary: \<open>{'status': 'no_data', \<dots>}\<close> or \<open>{'status': 'success', \<dots>}\<close>
  (the analysis timestamp, the clock's reading, is left out). The function builds its
  own engine from the model directory.
\<close>

datatype analysis_result = No_data | Success health_analysis

definition analyze_machine_health :: "model_store \<Rightarrow> int \<Rightarrow> reading list \<Rightarrow> analysis_result" where
  "analyze_machine_health store machine_id sensor_readings =
     (let analytics = PredictiveAnalytics store;
          df = preprocess_sensor_data sensor_readings
      in if is_empty df then No_data
         else
           (let anomalies = detect_anomalies analytics df;
                threshold_violations = check_thresholds analytics df machine_id;
                failure_prediction = predict_failure_probability analytics df;
                status =
                  (if failure_probability failure_prediction > 0.7 then Critical_health
                   else if failure_probability failure_prediction > 0.5 \<or> threshold_violations \<noteq> []
                   then Warning
                   else if anomalies \<noteq> [] then Attention
                   else Healthy)
            in Success
                 \<lparr>ha_machine_id = machine_id, ha_health_status = status,
                  ha_failure_prediction = failure_prediction, ha_anomalies = anomalies,
                  ha_threshold_violations = threshold_violations\<rparr>))"

section \<open>analytics.py: the threshold configuration route\<close>

text \<open>
  What outlives a request: the machines of the database and the model directory.
  \<open>set_machine_thresholds\<close> answers 500 for an unknown machine (\<open>get_or_404\<close> raises
  inside the route's \<open>try\<close>, whose \<open>except\<close> answers 500) and 400 for a missing or
  empty \<open>thresholds\<close> entry; otherwise it builds an engine, calls \<open>set_threshold_rules\<close>
  on it and answers 200. The engine is local to the request.
\<close>

record process_state =
  machines :: "int list"
  model_dir :: model_store

definition set_machine_thresholds ::
  "process_state \<Rightarrow> int \<Rightarrow> thresholds option \<Rightarrow> nat \<times> process_state" where
  "set_machine_thresholds st machine_id data =
     (if machine_id \<notin> set (machines st) then (500, st)
      else (case data of
              None \<Rightarrow> (400, st)
            | Some ths \<Rightarrow>
                if ths = [] then (400, st)
                else (let analytics = PredictiveAnalytics (model_dir st);
                          analytics' = set_threshold_rules analytics machine_id ths
                      in (200, st))))"

section \<open>Statements of the specification\<close>

text \<open>
  The fixed critical table, as the specification lists it: a value breaches it when the
  type is one of the four canonical ones and the value leaves that type's interval.
\<close>

definition critical_breach :: "string \<Rightarrow> real \<Rightarrow> bool" where
  "critical_breach t v =
     ((t = ''temperature'' \<and> (v < -40 \<or> v > 120)) \<or>
      (t = ''humidity'' \<and> (v < 5 \<or> v > 95)) \<or>
      (t = ''tension'' \<and> (v < -100 \<or> v > 800)) \<or>
      (t = ''vibration'' \<and> (v < -10 \<or> v > 80)))"

text \<open>
  The severity the specification gives a configured-bounds violation: high when the
  value exceeds the maximum times 1.2, or lies below the minimum by more than 20% of the
  minimum's magnitude; medium otherwise.
\<close>

definition spec_bounds_severity :: "real \<Rightarrow> real \<Rightarrow> real \<Rightarrow> severity" where
  "spec_bounds_severity lo hi v =
     (if v > hi * 1.2 \<or> v < lo - \<bar>lo\<bar> * 0.2 then High else Medium)"

text \<open>The priority order of the health status, as the specification lists it.\<close>

definition spec_health_status :: "real \<Rightarrow> bool \<Rightarrow> bool \<Rightarrow> health_status" where
  "spec_health_status p violations anomalies =
     (if p > 0.7 then Critical_health
      else if p > 0.5 \<or> violations then Warning
      else if anomalies then Attention
      else Healthy)"




text \<open>The names of the four columns \<open>create_features\<close> derives from a channel.\<close>

definition derived_names :: "string \<Rightarrow> string list" where
  "derived_names col =
     [col @ ''_rolling_mean'', col @ ''_rolling_std'', col @ ''_rate_of_change'', col @ ''_zscore'']"

text \<open>
  The scoring rule of the failure predictor, as the specification states it. The trend of
  a channel is the slope of the best-fit line over its trailing 20 samples, absent when
  the channel is absent (or has fewer than two samples).
\<close>

definition trailing_slope :: "frame \<Rightarrow> string \<Rightarrow> real option" where
  "trailing_slope fd sensor =
     (case map_of (columns fd) sensor of
        None \<Rightarrow> None
      | Some xs \<Rightarrow>
          if length (tail 20 xs) > 1 then Some (polyfit_slope (dropna (tail 20 xs))) else None)"

definition spec_indicator_points ::
  "real option \<Rightarrow> real option \<Rightarrow> real option \<Rightarrow> nat \<Rightarrow> nat" where
  "spec_indicator_points temperature vibration humidity n_anomalies =
     (case temperature of None \<Rightarrow> 0 | Some s \<Rightarrow> if s > 1.0 then 2 else 0)
     + (case vibration of None \<Rightarrow> 0 | Some s \<Rightarrow> if s > 0.5 then 2 else 0)
     + (case humidity of None \<Rightarrow> 0 | Some s \<Rightarrow> if \<bar>s\<bar> > 2.0 then 1 else 0)
     + n_anomalies"

definition spec_factors ::
  "real option \<Rightarrow> real option \<Rightarrow> real option \<Rightarrow> nat \<Rightarrow> string list" where
  "spec_factors temperature vibration humidity n_anomalies =
     (case temperature of
        None \<Rightarrow> []
      | Some s \<Rightarrow> if s > 1.0 then [''Rising temperature trend''] else [])
     @ (case vibration of
          None \<Rightarrow> []
        | Some s \<Rightarrow> if s > 0.5 then [''Increasing vibration''] else [])
     @ (case humidity of
          None \<Rightarrow> []
        | Some s \<Rightarrow> if \<bar>s\<bar> > 2.0 then [''Unstable humidity''] else [])
     @ (if n_anomalies > 0 then [show_nat n_anomalies @ '' recent anomalies detected''] else [])"

definition spec_time_to_failure :: "real \<Rightarrow> nat option" where
  "spec_time_to_failure p =
     (if p > 0.7 then Some 24 else if p > 0.5 then Some 72 else if p > 0.3 then Some 168
      else None)"

section \<open>Verification\<close>

subsection \<open>Type normaliser\<close>

lemma py_in_sublist: "py_in t s = sublist t s"
  by (induction s) (auto simp: sublist_Cons_right)

lemma sublist_dropWhile_free:
  assumes "sublist k s" "k \<noteq> []" "\<forall>c \<in> set k. \<not> P c"
  shows "sublist k (dropWhile P s)"
proof -
  from assms(1) obtain ps ss where s: "s = ps @ k @ ss" by (auto simp: sublist_def)
  have hd: "\<not> P (hd k)" using assms(2,3) by (cases k) auto
  have "dropWhile P (k @ ss) = k @ ss" using assms(2) hd by (cases k) auto
  then show ?thesis unfolding s
    by (cases "\<forall>x \<in> set ps. P x") (auto simp: dropWhile_append)
qed

lemma sublist_strip:
  assumes "k \<noteq> []" "\<forall>c \<in> set k. \<not> isspace c"
  shows "sublist k (strip s) = sublist k s"
proof
  assume "sublist k (strip s)"
  moreover have "sublist (strip s) s"
    unfolding strip_def
    by (metis sublist_dropWhile sublist_order.order_trans sublist_rev_left)
  ultimately show "sublist k s" by (rule sublist_order.order_trans)
next
  assume a: "sublist k s"
  have 1: "sublist k (dropWhile isspace s)"
    using sublist_dropWhile_free[OF a assms] .
  have 2: "sublist (rev k) (rev (dropWhile isspace s))" using 1 by simp
  have 3: "sublist (rev k) (dropWhile isspace (rev (dropWhile isspace s)))"
    by (rule sublist_dropWhile_free[OF 2]) (use assms in auto)
  show "sublist k (strip s)" unfolding strip_def using 3 by (simp add: sublist_rev_right)
qed

lemma keyword_shape:
  "k \<in> set (concat (map snd keyword_table)) \<Longrightarrow>
     k \<noteq> [] \<and> (\<forall>c \<in> set k. \<not> isspace c) \<and> lower k = k"
  by (auto simp: keyword_table_def isspace_def lower_def lower_char_def)

lemma keyword_match_iff:
  assumes "k \<in> set (concat (map snd keyword_table))"
  shows "py_in k (strip (lower s)) = ci_substring k s"
proof -
  have k: "k \<noteq> []" "\<forall>c \<in> set k. \<not> isspace c" "lower k = k"
    using keyword_shape[OF assms] by auto
  have "py_in k (strip (lower s)) = sublist k (lower s)"
    by (simp add: py_in_sublist sublist_strip[OF k(1,2)])
  also have "\<dots> = ci_substring k s"
    by (simp add: ci_substring_def sublist_def k(3))
  finally show ?thesis .
qed

lemma normalize_refines_spec: "normalize_sensor_type s = normalize_spec s"
  by (simp add: normalize_sensor_type_def normalize_spec_def keyword_table_def
      keyword_match_iff[unfolded keyword_table_def, simplified] Let_def)

lemma normalize_canonical:
  "normalize_sensor_type ''temperature'' = ''temperature''"
  "normalize_sensor_type ''humidity'' = ''humidity''"
  "normalize_sensor_type ''tension'' = ''tension''"
  "normalize_sensor_type ''vibration'' = ''vibration''"
  by (simp_all add: normalize_sensor_type_def lower_def lower_char_def strip_def isspace_def)

text \<open>
  C8. For every label, \<open>normalize_sensor_type\<close> returns the first canonical type, in the
  order temperature, humidity, tension, vibration, one of whose keywords occurs in the
  label as a substring regardless of case, and the lowercased, trimmed label when no
  keyword occurs; each of the four canonical types is returned unchanged.
\<close>

theorem normalize_sensor_type_priority:
  "normalize_sensor_type label = normalize_spec label
   \<and> normalize_sensor_type ''temperature'' = ''temperature''
   \<and> normalize_sensor_type ''humidity'' = ''humidity''
   \<and> normalize_sensor_type ''tension'' = ''tension''
   \<and> normalize_sensor_type ''vibration'' = ''vibration''"
  by (simp add: normalize_refines_spec [symmetric] normalize_canonical)

theorem normalize_sensor_type_priority_witness:
  "normalize_spec ''  Thermal Pressure '' = ''temperature''
   \<and> normalize_spec '' RPM'' = ''rpm''"
proof -
  have e1: "normalize_spec ''  Thermal Pressure '' = normalize_sensor_type ''  Thermal Pressure ''"
    by (simp only: normalize_sensor_type_priority)
  have e2: "normalize_spec '' RPM'' = normalize_sensor_type '' RPM''"
    by (simp only: normalize_sensor_type_priority)
  show ?thesis
    unfolding e1 e2
    by (simp add: normalize_sensor_type_def lower_def lower_char_def strip_def isspace_def)
qed

subsection \<open>Critical bounds at ingestion\<close>

lemma check_critical_eq:
  "check_critical_thresholds s v =
     (if critical_breach (sensor_type s) v then Some (mk_alert s Critical_threshold Critical)
      else None)"
  by (simp add: check_critical_thresholds_def critical_thresholds_def critical_breach_def)

lemma critical_part_of_sensor_check:
  assumes "min_value s = Some lo" "max_value s = Some hi"
  shows "filter (\<lambda>a. alert_type a = Critical_threshold) (check_sensor_thresholds s v) =
           (if critical_breach (sensor_type s) v then [mk_alert s Critical_threshold Critical]
            else [])"
  using assms by (simp add: check_sensor_thresholds_def check_critical_eq mk_alert_def Let_def)

text \<open>
  What holds of the critical check. The helper \<open>check_critical_thresholds\<close> answers
  with one alert of severity critical exactly when the sensor's type is canonical and the
  value leaves that type's interval of the fixed table, and it never reads the sensor's
  bounds; within \<open>check_sensor_thresholds\<close>, for a sensor whose two bounds are set, the
  alerts of the critical kind are that one alert or none; a sensor of a non-canonical
  type never gets a critical-bounds alert.
\<close>

lemma critical_bounds_when_configured:
  "check_critical_thresholds s v =
     (if critical_breach (sensor_type s) v then Some (mk_alert s Critical_threshold Critical)
      else None)
   \<and> check_critical_thresholds (s\<lparr>min_value := lo', max_value := hi'\<rparr>) v
       = check_critical_thresholds s v
   \<and> (min_value s = Some lo \<and> max_value s = Some hi \<longrightarrow>
        filter (\<lambda>a. alert_type a = Critical_threshold) (check_sensor_thresholds s v) =
          (if critical_breach (sensor_type s) v then [mk_alert s Critical_threshold Critical]
           else []))
   \<and> (sensor_type s \<notin> {''temperature'', ''humidity'', ''tension'', ''vibration''} \<longrightarrow>
        check_critical_thresholds s v = None
        \<and> filter (\<lambda>a. alert_type a = Critical_threshold) (check_sensor_thresholds s v) = [])"
proof -
  have 1: "check_critical_thresholds (s\<lparr>min_value := lo', max_value := hi'\<rparr>) v
       = check_critical_thresholds s v"
    by (simp add: check_critical_eq mk_alert_def)
  have 2: "sensor_type s \<notin> {''temperature'', ''humidity'', ''tension'', ''vibration''} \<Longrightarrow>
        check_critical_thresholds s v = None"
    by (simp add: check_critical_eq critical_breach_def)
  have 3: "sensor_type s \<notin> {''temperature'', ''humidity'', ''tension'', ''vibration''} \<Longrightarrow>
        filter (\<lambda>a. alert_type a = Critical_threshold) (check_sensor_thresholds s v) = []"
    using 2 by (simp add: check_sensor_thresholds_def mk_alert_def Let_def split: option.splits)
  show ?thesis using check_critical_eq critical_part_of_sensor_check 1 2 3 by blast
qed

text \<open>
  C7. The critical check does depend on the configured bounds: it runs after the two
  comparisons with them, inside the same \<open>try\<close>. For a temperature sensor with minimum
  10 and no maximum, the value 500 breaches the critical table (the helper alone answers
  with the critical alert), yet \<open>check_sensor_thresholds\<close> adds no alert at all; the same
  happens with no minimum and maximum 100; with both bounds set (10 and 100) the value
  500 gets the configured-bounds alert and the critical alert.
\<close>

theorem critical_check_skipped_on_null_bound:
  "check_critical_thresholds
     \<lparr>sensor_id = 7, sensor_machine_id = 1, sensor_name = ''Oven'',
      sensor_type = ''temperature'', sensor_unit = ''C'',
      min_value = Some 10, max_value = None\<rparr> 500
   = Some \<lparr>alert_machine_id = 1, alert_sensor_id = 7, alert_type = Critical_threshold,
           alert_severity = Critical\<rparr>
   \<and> check_sensor_thresholds
       \<lparr>sensor_id = 7, sensor_machine_id = 1, sensor_name = ''Oven'',
        sensor_type = ''temperature'', sensor_unit = ''C'',
        min_value = Some 10, max_value = None\<rparr> 500 = []
   \<and> check_sensor_thresholds
       \<lparr>sensor_id = 7, sensor_machine_id = 1, sensor_name = ''Oven'',
        sensor_type = ''temperature'', sensor_unit = ''C'',
        min_value = None, max_value = Some 100\<rparr> 500 = []
   \<and> check_sensor_thresholds
       \<lparr>sensor_id = 7, sensor_machine_id = 1, sensor_name = ''Oven'',
        sensor_type = ''temperature'', sensor_unit = ''C'',
        min_value = Some 10, max_value = Some 100\<rparr> 500
     = [\<lparr>alert_machine_id = 1, alert_sensor_id = 7, alert_type = Threshold_violation,
         alert_severity = High\<rparr>,
        \<lparr>alert_machine_id = 1, alert_sensor_id = 7, alert_type = Critical_threshold,
         alert_severity = Critical\<rparr>]"
  by (simp add: check_sensor_thresholds_def check_critical_thresholds_def
      critical_thresholds_def mk_alert_def)

subsection \<open>Neutral results\<close>

text \<open>
  C9. Neither operation raises: for every frame with fewer than 10 rows
  \<open>predict_failure_probability\<close> returns probability 0, confidence 0, no time to failure
  and no contributing factor; and \<open>detect_anomalies\<close> returns the empty list whenever the
  engine has no model, or no scaler, or the frame is empty.
\<close>

theorem neutral_results:
  "(nrows df < 10 \<longrightarrow>
      predict_failure_probability pa df =
        \<lparr>failure_probability = 0, confidence = 0, time_to_failure_hours = None,
         contributing_factors = []\<rparr>)
   \<and> (anomaly_model pa = None \<or> scaler pa = None \<or> is_empty df \<longrightarrow> detect_anomalies pa df = [])"
  by (auto simp: predict_failure_probability_def neutral_prediction_def detect_anomalies_def
      split: option.splits)

theorem neutral_results_witness:
  "predict_failure_probability (PredictiveAnalytics \<lparr>stored_model = None, stored_scaler = None\<rparr>)
     \<lparr>timestamps = [0, 1, 2], columns = [(''temperature'', [Some 20, Some 30, Some 40])]\<rparr>
   = \<lparr>failure_probability = 0, confidence = 0, time_to_failure_hours = None,
      contributing_factors = []\<rparr>
   \<and> detect_anomalies (PredictiveAnalytics \<lparr>stored_model = None, stored_scaler = None\<rparr>)
     \<lparr>timestamps = [0, 1, 2], columns = [(''temperature'', [Some 20, Some 30, Some 40])]\<rparr> = []"
  using neutral_results [of "\<lparr>timestamps = [0, 1, 2], columns = [(''temperature'', [Some 20, Some 30, Some 40])]\<rparr>"
     "PredictiveAnalytics \<lparr>stored_model = None, stored_scaler = None\<rparr>"]
  by (simp add: nrows_def PredictiveAnalytics_def)

subsection \<open>Per-machine override of the threshold rules\<close>

lemma rule_violation_type [simp]: "v_sensor_type (rule_violation df k l v) = k"
  by (simp add: rule_violation_def)

lemma check_rules_keys:
  "check_rules df ths = Some vs \<Longrightarrow> v \<in> set vs \<Longrightarrow> v_sensor_type v \<in> fst ` set ths"
proof (induction ths arbitrary: vs)
  case Nil
  then show ?case by simp
next
  case (Cons a ths)
  obtain k l where a: "a = (k, l)" by (cases a)
  show ?case using Cons.prems Cons.IH unfolding a
    by (fastforce split: if_splits option.splits)
qed

text \<open>
  C10. When the engine holds an override for the machine, every violation that
  \<open>check_thresholds\<close> reports is for a sensor type that is a key of the override: a
  type absent from the override gets no violation, whatever its value, and the built-in
  defaults play no part.
\<close>

theorem override_not_merged:
  assumes "threshold_rules pa machine_id = Some ths"
  shows "v_sensor_type ` set (check_thresholds pa df machine_id) \<subseteq> fst ` set ths"
proof
  fix k assume "k \<in> v_sensor_type ` set (check_thresholds pa df machine_id)"
  then obtain v where v: "v \<in> set (check_thresholds pa df machine_id)" "k = v_sensor_type v"
    by auto
  from v(1) assms obtain vs where "check_rules df ths = Some vs" "v \<in> set vs"
    by (cases "check_rules df ths") (auto simp: check_thresholds_def split: if_splits)
  then show "k \<in> fst ` set ths" using check_rules_keys v(2) by blast
qed

theorem override_not_merged_witness:
  "check_thresholds
     (set_threshold_rules (PredictiveAnalytics \<lparr>stored_model = None, stored_scaler = None\<rparr>) 1
        [(''humidity'', \<lparr>lim_min = 10, lim_max = 90\<rparr>)])
     \<lparr>timestamps = [0], columns = [(''humidity'', [Some 50]), (''temperature'', [Some 500])]\<rparr> 1 = []
   \<and> v_sensor_type ` set (check_thresholds
     (set_threshold_rules (PredictiveAnalytics \<lparr>stored_model = None, stored_scaler = None\<rparr>) 1
        [(''humidity'', \<lparr>lim_min = 10, lim_max = 90\<rparr>)])
     \<lparr>timestamps = [0], columns = [(''humidity'', [Some 5]), (''temperature'', [Some 500])]\<rparr> 1)
     \<subseteq> {''humidity''}"
proof -
  have r: "threshold_rules (set_threshold_rules (PredictiveAnalytics \<lparr>stored_model = None, stored_scaler = None\<rparr>) 1
        [(''humidity'', \<lparr>lim_min = 10, lim_max = 90\<rparr>)]) 1 = Some [(''humidity'', \<lparr>lim_min = 10, lim_max = 90\<rparr>)]"
    by (simp add: set_threshold_rules_def)
  have 1: "check_thresholds
     (set_threshold_rules (PredictiveAnalytics \<lparr>stored_model = None, stored_scaler = None\<rparr>) 1
        [(''humidity'', \<lparr>lim_min = 10, lim_max = 90\<rparr>)])
     \<lparr>timestamps = [0], columns = [(''humidity'', [Some 50]), (''temperature'', [Some 500])]\<rparr> 1 = []"
    by (simp add: check_thresholds_def set_threshold_rules_def is_empty_def nth_cell_def nrows_def
        rule_violation_def)
  show ?thesis using 1 override_not_merged [OF r] by simp
qed

subsection \<open>Severity of a configured-bounds violation\<close>

text \<open>
  C1, as the specification words it, fails on both evaluators. At ingestion a value
  of 1 under a minimum of 10 is reported with severity medium, and in
  \<open>check_thresholds\<close> a temperature of 100 against the default maximum of 80 is
  reported with severity medium, although both overshoot the bound by more than 20%.
\<close>

theorem configured_bounds_severity_counterexample:
  "map alert_severity
     (check_sensor_thresholds
        \<lparr>sensor_id = 7, sensor_machine_id = 1, sensor_name = ''Oven'',
         sensor_type = ''temperature'', sensor_unit = ''C'',
         min_value = Some 10, max_value = Some 100\<rparr> 1) = [Medium]
   \<and> spec_bounds_severity 10 100 1 = High
   \<and> map v_severity
       (check_thresholds (PredictiveAnalytics \<lparr>stored_model = None, stored_scaler = None\<rparr>)
          \<lparr>timestamps = [0], columns = [(''temperature'', [Some 100])]\<rparr> 1) = [Medium]
   \<and> spec_bounds_severity (-10) 80 100 = High"
  by (simp add: check_sensor_thresholds_def check_critical_thresholds_def critical_thresholds_def
      mk_alert_def spec_bounds_severity_def check_thresholds_def PredictiveAnalytics_def
      is_empty_def default_thresholds_def nth_cell_def nrows_def rule_violation_def)

lemma check_rules_total:
  "''timestamp'' \<notin> fst ` set ths \<Longrightarrow> \<exists>vs. check_rules df ths = Some vs"
proof (induction ths)
  case Nil
  then show ?case by simp
next
  case (Cons a ths)
  obtain k l where a: "a = (k, l)" by (cases a)
  from Cons obtain vs where "check_rules df ths = Some vs" by auto
  then show ?case using Cons.prems unfolding a by (auto split: option.splits)
qed

lemma check_rules_absent:
  assumes "check_rules df ths = Some vs" "k \<notin> fst ` set ths"
  shows "filter (\<lambda>x. v_sensor_type x = k) vs = []"
  using check_rules_keys[OF assms(1)] assms(2) by (auto simp: filter_empty_conv)

lemma check_rules_at:
  assumes "check_rules df ths = Some vs" "distinct (map fst ths)" "(k, lm) \<in> set ths"
    "map_of (columns df) k = Some xs" "nth_cell xs (nrows df - 1) = Some v"
  shows "filter (\<lambda>x. v_sensor_type x = k) vs =
           (if v < lim_min lm \<or> v > lim_max lm then [rule_violation df k lm v] else [])"
  using assms
proof (induction ths arbitrary: vs)
  case Nil
  then show ?case by simp
next
  case (Cons a ths)
  obtain k' l' where a: "a = (k', l')" by (cases a)
  from Cons.prems(1) obtain ws where ws: "check_rules df ths = Some ws"
    unfolding a by (cases "check_rules df ths") (auto split: if_splits option.splits)
  show ?case
  proof (cases "k' = k")
    case True
    then have l: "l' = lm" and notin: "k \<notin> fst ` set ths"
      using Cons.prems(2,3) unfolding a by (auto simp: image_iff)
    have f: "filter (\<lambda>x. v_sensor_type x = k) ws = []"
      using check_rules_absent[OF ws notin] .
    show ?thesis using Cons.prems(1,4,5) ws f True l unfolding a
      by (auto simp: rule_violation_def split: if_splits)
  next
    case False
    then have mem: "(k, lm) \<in> set ths" using Cons.prems(3) unfolding a by auto
    have d: "distinct (map fst ths)" using Cons.prems(2) by simp
    have ih: "filter (\<lambda>x. v_sensor_type x = k) ws =
           (if v < lim_min lm \<or> v > lim_max lm then [rule_violation df k lm v] else [])"
      using Cons.IH[OF ws d mem Cons.prems(4,5)] .
    show ?thesis using Cons.prems(1) ws ih False unfolding a
      by (auto split: if_splits option.splits)
  qed
qed

lemma sensor_check_configured:
  assumes "min_value s = Some lo" "max_value s = Some hi"
  shows "filter (\<lambda>a. alert_type a = Threshold_violation) (check_sensor_thresholds s v) =
          (if v < lo then [mk_alert s Threshold_violation Medium] else []) @
          (if v > hi then [mk_alert s Threshold_violation (if v > hi * 1.2 then High else Medium)]
           else [])"
  using assms
  by (simp add: check_sensor_thresholds_def check_critical_thresholds_def mk_alert_def Let_def
      split: option.splits prod.splits)

text \<open>
  C1 (amended). For a sensor whose two bounds are configured, \<open>check_sensor_thresholds\<close>
  raises one configured-bounds alert for a value above the maximum, of severity high when
  the value exceeds 1.2 times the maximum and medium otherwise, and one alert of severity
  medium for a value below the minimum, without grading. \<open>check_thresholds\<close>, for a
  rule of the machine's rule set (keys distinct, none named timestamp) whose column holds
  a latest value outside the rule's interval, reports exactly one violation for that
  sensor type, of severity high when the value is below half the minimum or above 1.5
  times the maximum, and medium otherwise; a value inside the interval gives none.
\<close>

theorem configured_bounds_severity:
  "(min_value s = Some lo \<and> max_value s = Some hi \<longrightarrow>
      filter (\<lambda>a. alert_type a = Threshold_violation) (check_sensor_thresholds s v) =
        (if v < lo then [mk_alert s Threshold_violation Medium] else []) @
        (if v > hi then [mk_alert s Threshold_violation (if v > hi * 1.2 then High else Medium)]
         else []))
   \<and> (\<not> is_empty df
        \<and> (case threshold_rules pa machine_id of None \<Rightarrow> default_thresholds | Some t \<Rightarrow> t) = ths
        \<and> distinct (map fst ths) \<and> ''timestamp'' \<notin> fst ` set ths \<and> (k, lm) \<in> set ths
        \<and> map_of (columns df) k = Some xs \<and> nth_cell xs (nrows df - 1) = Some w \<longrightarrow>
      filter (\<lambda>x. v_sensor_type x = k) (check_thresholds pa df machine_id) =
        (if w < lim_min lm \<or> w > lim_max lm
         then [\<lparr>v_sensor_type = k, v_value = w, threshold_min = lim_min lm,
                threshold_max = lim_max lm,
                v_severity = (if w < lim_min lm * 0.5 \<or> w > lim_max lm * 1.5 then High
                              else Medium),
                v_timestamp = last (timestamps df)\<rparr>]
         else []))"
proof (intro conjI impI)
  assume "min_value s = Some lo \<and> max_value s = Some hi"
  then show "filter (\<lambda>a. alert_type a = Threshold_violation) (check_sensor_thresholds s v) =
        (if v < lo then [mk_alert s Threshold_violation Medium] else []) @
        (if v > hi then [mk_alert s Threshold_violation (if v > hi * 1.2 then High else Medium)]
         else [])"
    using sensor_check_configured by blast
next
  assume a: "\<not> is_empty df
        \<and> (case threshold_rules pa machine_id of None \<Rightarrow> default_thresholds | Some t \<Rightarrow> t) = ths
        \<and> distinct (map fst ths) \<and> ''timestamp'' \<notin> fst ` set ths \<and> (k, lm) \<in> set ths
        \<and> map_of (columns df) k = Some xs \<and> nth_cell xs (nrows df - 1) = Some w"
  then obtain vs where vs: "check_rules df ths = Some vs" using check_rules_total by blast
  have ct: "check_thresholds pa df machine_id = vs"
    using a vs by (simp add: check_thresholds_def)
  show "filter (\<lambda>x. v_sensor_type x = k) (check_thresholds pa df machine_id) =
        (if w < lim_min lm \<or> w > lim_max lm
         then [\<lparr>v_sensor_type = k, v_value = w, threshold_min = lim_min lm,
                threshold_max = lim_max lm,
                v_severity = (if w < lim_min lm * 0.5 \<or> w > lim_max lm * 1.5 then High
                              else Medium),
                v_timestamp = last (timestamps df)\<rparr>]
         else [])"
    unfolding ct using check_rules_at[OF vs, of k lm xs w] a
    by (simp add: rule_violation_def)
qed

theorem configured_bounds_severity_witness:
  "filter (\<lambda>a. alert_type a = Threshold_violation)
     (check_sensor_thresholds
        \<lparr>sensor_id = 7, sensor_machine_id = 1, sensor_name = ''Oven'',
         sensor_type = ''temperature'', sensor_unit = ''C'',
         min_value = Some 10, max_value = Some 100\<rparr> 125)
     = [\<lparr>alert_machine_id = 1, alert_sensor_id = 7, alert_type = Threshold_violation,
         alert_severity = High\<rparr>]
   \<and> filter (\<lambda>x. v_sensor_type x = ''temperature'')
       (check_thresholds (PredictiveAnalytics \<lparr>stored_model = None, stored_scaler = None\<rparr>)
          \<lparr>timestamps = [0, 1], columns = [(''temperature'', [Some 25, Some 95])]\<rparr> 1)
     = [\<lparr>v_sensor_type = ''temperature'', v_value = 95, threshold_min = -10,
         threshold_max = 80, v_severity = Medium, v_timestamp = 1\<rparr>]"
  using
    configured_bounds_severity
      [of "\<lparr>sensor_id = 7, sensor_machine_id = 1, sensor_name = ''Oven'',
            sensor_type = ''temperature'', sensor_unit = ''C'',
            min_value = Some 10, max_value = Some 100\<rparr>" 10 100 125
          "\<lparr>timestamps = [0, 1], columns = [(''temperature'', [Some 25, Some 95])]\<rparr>"
          "PredictiveAnalytics \<lparr>stored_model = None, stored_scaler = None\<rparr>" 1
          default_thresholds "''temperature''" "\<lparr>lim_min = -10, lim_max = 80\<rparr>"
          "[Some 25, Some 95]" 95]
  by (simp add: mk_alert_def is_empty_def PredictiveAnalytics_def default_thresholds_def
      nth_cell_def nrows_def)

subsection \<open>The threshold rule set across requests\<close>

lemma preprocess_one:
  "preprocess_sensor_data [\<lparr>r_sensor_type = ''temperature'', r_value = 70, r_timestamp = 0\<rparr>]
     = \<lparr>timestamps = [0], columns = [(''temperature'', [Some 70])]\<rparr>"
  by (simp add: preprocess_sensor_data_def pivot_cell_def series_mean_def dropna_def
      List.map_filter_simps ffill_def bfill_def Let_def)

lemma set_machine_thresholds_keeps_state: "snd (set_machine_thresholds st machine_id data) = st"
  by (simp add: set_machine_thresholds_def Let_def split: option.splits)

text \<open>
  C2. The configuration route does not keep what it is given. With machine 1 in the
  database, storing the rule temperature in [0, 60] for machine 1 is answered with 200 and
  leaves the process state as it was; the health analysis of machine 1 that follows, on
  one temperature reading of 70, reports no threshold violation and the status healthy
  (it evaluates the default rule [-10, 80]); an engine that holds the rule reports the
  violation of [0, 60] on the same reading.
\<close>

theorem threshold_override_lost:
  "set_machine_thresholds \<lparr>machines = [1], model_dir = \<lparr>stored_model = None, stored_scaler = None\<rparr>\<rparr> 1
      (Some [(''temperature'', \<lparr>lim_min = 0, lim_max = 60\<rparr>)])
     = (200, \<lparr>machines = [1], model_dir = \<lparr>stored_model = None, stored_scaler = None\<rparr>\<rparr>)
   \<and> analyze_machine_health
       (model_dir (snd (set_machine_thresholds
          \<lparr>machines = [1], model_dir = \<lparr>stored_model = None, stored_scaler = None\<rparr>\<rparr> 1
          (Some [(''temperature'', \<lparr>lim_min = 0, lim_max = 60\<rparr>)])))) 1
       [\<lparr>r_sensor_type = ''temperature'', r_value = 70, r_timestamp = 0\<rparr>]
     = Success \<lparr>ha_machine_id = 1, ha_health_status = Healthy,
                ha_failure_prediction = neutral_prediction, ha_anomalies = [],
                ha_threshold_violations = []\<rparr>
   \<and> check_thresholds
       (set_threshold_rules (PredictiveAnalytics \<lparr>stored_model = None, stored_scaler = None\<rparr>) 1
          [(''temperature'', \<lparr>lim_min = 0, lim_max = 60\<rparr>)])
       (preprocess_sensor_data [\<lparr>r_sensor_type = ''temperature'', r_value = 70, r_timestamp = 0\<rparr>]) 1
     = [\<lparr>v_sensor_type = ''temperature'', v_value = 70, threshold_min = 0, threshold_max = 60,
         v_severity = Medium, v_timestamp = 0\<rparr>]"
proof -
  have 1: "set_machine_thresholds \<lparr>machines = [1], model_dir = \<lparr>stored_model = None, stored_scaler = None\<rparr>\<rparr> 1
      (Some [(''temperature'', \<lparr>lim_min = 0, lim_max = 60\<rparr>)])
     = (200, \<lparr>machines = [1], model_dir = \<lparr>stored_model = None, stored_scaler = None\<rparr>\<rparr>)"
    by (simp add: set_machine_thresholds_def)
  have 2: "analyze_machine_health \<lparr>stored_model = None, stored_scaler = None\<rparr> 1
       [\<lparr>r_sensor_type = ''temperature'', r_value = 70, r_timestamp = 0\<rparr>]
     = Success \<lparr>ha_machine_id = 1, ha_health_status = Healthy,
                ha_failure_prediction = neutral_prediction, ha_anomalies = [],
                ha_threshold_violations = []\<rparr>"
    unfolding analyze_machine_health_def preprocess_one
    by (simp add: is_empty_def detect_anomalies_def PredictiveAnalytics_def check_thresholds_def
        default_thresholds_def nth_cell_def nrows_def predict_failure_probability_def
        neutral_prediction_def)
  have 3: "check_thresholds
       (set_threshold_rules (PredictiveAnalytics \<lparr>stored_model = None, stored_scaler = None\<rparr>) 1
          [(''temperature'', \<lparr>lim_min = 0, lim_max = 60\<rparr>)])
       (preprocess_sensor_data [\<lparr>r_sensor_type = ''temperature'', r_value = 70, r_timestamp = 0\<rparr>]) 1
     = [\<lparr>v_sensor_type = ''temperature'', v_value = 70, threshold_min = 0, threshold_max = 60,
         v_severity = Medium, v_timestamp = 0\<rparr>]"
    unfolding preprocess_one
    by (simp add: check_thresholds_def set_threshold_rules_def is_empty_def nth_cell_def nrows_def
        rule_violation_def)
  show ?thesis unfolding 1 using 2 3 by simp
qed

subsection \<open>Affected channels of an anomaly\<close>

lemma features_const:
  "create_features \<lparr>timestamps = [0, 1, 2], columns = [(''temperature'', [Some 25, Some 25, Some 25])]\<rparr>
   = \<lparr>timestamps = [0, 1, 2],
      columns = [(''temperature'', [Some 25, Some 25, Some 25]),
                 (''temperature_rolling_mean'', [Some 25, Some 25, Some 25]),
                 (''temperature_rolling_std'', [Some 0, Some 0, Some 0]),
                 (''temperature_rate_of_change'', [Some 0, Some 0, Some 0]),
                 (''temperature_zscore'', [Some 0, Some 0, Some 0])]\<rparr>"
  by (simp add: create_features_def is_empty_def feature_columns_def add_features_def fillna_def
      zscore_def rolling_mean_def rolling_std_def window_def diff_def sub_cell_def
      series_std_def series_var_def series_mean_def dropna_def List.map_filter_simps Let_def
      upt_rec numeral_2_eq_2 numeral_3_eq_3)

text \<open>
  C3. \<open>_identify_affected_sensors\<close> compares the raw cells of the feature row with 2,
  not z-scores. On three readings of a constant temperature of 25, with a forest that
  flags every row, each anomaly reports temperature as affected, although the z-score
  column of the row is 0 and the row standardised by the scaler is 0 in every feature.
\<close>

theorem affected_sensors_from_raw_values:
  "map affected_sensors
     (detect_anomalies
        \<lparr>anomaly_model = Some \<lparr>predict = (\<lambda>x. -1), decision_function = (\<lambda>x. -0.2)\<rparr>,
         scaler = Some \<lparr>sc_mean = [25, 25, 0, 0, 0], sc_scale = [1, 1, 1, 1, 1]\<rparr>,
         threshold_rules = Map.empty\<rparr>
        \<lparr>timestamps = [0, 1, 2],
         columns = [(''temperature'', [Some 25, Some 25, Some 25])]\<rparr>)
     = [[''temperature''], [''temperature''], [''temperature'']]
   \<and> map_of (columns (create_features
        \<lparr>timestamps = [0, 1, 2],
         columns = [(''temperature'', [Some 25, Some 25, Some 25])]\<rparr>)) ''temperature_zscore''
     = Some [Some 0, Some 0, Some 0]
   \<and> map (\<lambda>i. transform_row \<lparr>sc_mean = [25, 25, 0, 0, 0], sc_scale = [1, 1, 1, 1, 1]\<rparr>
              (matrix_row (create_features
                 \<lparr>timestamps = [0, 1, 2],
                  columns = [(''temperature'', [Some 25, Some 25, Some 25])]\<rparr>)
                 (select_feature_cols (create_features
                    \<lparr>timestamps = [0, 1, 2],
                     columns = [(''temperature'', [Some 25, Some 25, Some 25])]\<rparr>)) i))
        [0, 1, 2]
     = [Some [0, 0, 0, 0, 0], Some [0, 0, 0, 0, 0], Some [0, 0, 0, 0, 0]]"
proof -
  let ?fd = "\<lparr>timestamps = [0, 1, 2],
      columns = [(''temperature'', [Some 25, Some 25, Some 25]),
                 (''temperature_rolling_mean'', [Some 25, Some 25, Some 25]),
                 (''temperature_rolling_std'', [Some 0, Some 0, Some 0]),
                 (''temperature_rate_of_change'', [Some 0, Some 0, Some 0]),
                 (''temperature_zscore'', [Some 0, Some 0, Some 0])]\<rparr>"
  let ?cols = "[''temperature'', ''temperature_rolling_mean'', ''temperature_rolling_std'',
      ''temperature_rate_of_change'', ''temperature_zscore'']"
  let ?row = "[(''temperature'', Some 25), (''temperature_rolling_mean'', Some 25),
      (''temperature_rolling_std'', Some 0), (''temperature_rate_of_change'', Some 0),
      (''temperature_zscore'', Some (0::real))]"
  have cols: "select_feature_cols ?fd = ?cols"
    by (simp add: select_feature_cols_def column_names_def feature_columns_def)
  have rows: "\<And>i. i < 3 \<Longrightarrow> matrix_row ?fd ?cols i = [Some 25, Some 25, Some 0, Some 0, Some 0]"
    by (auto simp: matrix_row_def nth_cell_def less_Suc_eq numeral_3_eq_3)
  have tr: "transform_row \<lparr>sc_mean = [25, 25, 0, 0, 0], sc_scale = [1, 1, 1, 1, 1]\<rparr>
      [Some 25, Some 25, Some 0, Some 0, Some 0] = Some [0, 0, 0, 0, 0]"
    by (simp add: transform_row_def)
  have row: "\<And>i. i < 3 \<Longrightarrow> row_at ?fd i = ?row"
    by (auto simp: row_at_def nth_cell_def less_Suc_eq numeral_3_eq_3)
  have aff: "identify_affected_sensors ?row ?cols = [''temperature'']"
    by (simp add: identify_affected_sensors_def feature_columns_def affected_step_def)
  have up: "[0..<3] = [0, 1, 2]" by (simp add: upt_rec numeral_3_eq_3)
  have 1: "map affected_sensors
     (detect_anomalies
        \<lparr>anomaly_model = Some \<lparr>predict = (\<lambda>x. -1), decision_function = (\<lambda>x. -0.2)\<rparr>,
         scaler = Some \<lparr>sc_mean = [25, 25, 0, 0, 0], sc_scale = [1, 1, 1, 1, 1]\<rparr>,
         threshold_rules = Map.empty\<rparr>
        \<lparr>timestamps = [0, 1, 2],
         columns = [(''temperature'', [Some 25, Some 25, Some 25])]\<rparr>)
     = [[''temperature''], [''temperature''], [''temperature'']]"
    unfolding detect_anomalies_def features_const
    by (simp add: is_empty_def cols nrows_def up rows tr row aff Let_def)
  have 2: "map_of (columns ?fd) ''temperature_zscore'' = Some [Some 0, Some 0, Some 0]"
    by simp
  have 3: "map (\<lambda>i. transform_row \<lparr>sc_mean = [25, 25, 0, 0, 0], sc_scale = [1, 1, 1, 1, 1]\<rparr>
              (matrix_row ?fd (select_feature_cols ?fd) i)) [0, 1, 2]
     = [Some [0, 0, 0, 0, 0], Some [0, 0, 0, 0, 0], Some [0, 0, 0, 0, 0]]"
    unfolding cols by (simp add: rows tr)
  show ?thesis unfolding features_const by (intro conjI 1[unfolded features_const] 2 3)
qed

subsection \<open>Health status\<close>

lemma sort_eq_Nil_iff: "(sort xs = []) = (xs = [])"
proof -
  have "length (sort xs) = length xs" by simp
  then show ?thesis by (metis length_0_conv)
qed

lemma preprocess_empty_iff:
  "is_empty (preprocess_sensor_data rs) =
     (rs = [] \<or> list_ex (\<lambda>r. r_sensor_type r = ''timestamp'') rs)"
  by (simp add: preprocess_sensor_data_def is_empty_def empty_frame_def Let_def sort_eq_Nil_iff)

text \<open>
  C6. \<open>analyze_machine_health\<close> answers \<open>no_data\<close>, and nothing else, exactly when the
  pivoted frame is empty, which is when there is no reading or when a reading's sensor
  type is \<open>timestamp\<close> (the pivot then fails). Otherwise it answers success
  with the results of the three analyses on the frame and the status critical if the
  failure probability exceeds 0.7, else warning if it exceeds 0.5 or a threshold
  violation is present, else attention if an anomaly is present, else healthy.
\<close>

theorem health_status_priority:
  "analyze_machine_health store machine_id rs =
     (if is_empty (preprocess_sensor_data rs) then No_data
      else Success
        \<lparr>ha_machine_id = machine_id,
         ha_health_status =
           spec_health_status
             (failure_probability
                (predict_failure_probability (PredictiveAnalytics store) (preprocess_sensor_data rs)))
             (check_thresholds (PredictiveAnalytics store) (preprocess_sensor_data rs) machine_id \<noteq> [])
             (detect_anomalies (PredictiveAnalytics store) (preprocess_sensor_data rs) \<noteq> []),
         ha_failure_prediction =
           predict_failure_probability (PredictiveAnalytics store) (preprocess_sensor_data rs),
         ha_anomalies = detect_anomalies (PredictiveAnalytics store) (preprocess_sensor_data rs),
         ha_threshold_violations =
           check_thresholds (PredictiveAnalytics store) (preprocess_sensor_data rs) machine_id\<rparr>)
   \<and> is_empty (preprocess_sensor_data rs) =
       (rs = [] \<or> list_ex (\<lambda>r. r_sensor_type r = ''timestamp'') rs)"
  by (simp add: analyze_machine_health_def spec_health_status_def Let_def preprocess_empty_iff)

theorem health_status_priority_witness:
  "analyze_machine_health \<lparr>stored_model = None, stored_scaler = None\<rparr> 1 [] = No_data
   \<and> analyze_machine_health \<lparr>stored_model = None, stored_scaler = None\<rparr> 1
       [\<lparr>r_sensor_type = ''temperature'', r_value = 95, r_timestamp = 0\<rparr>]
     = Success
        \<lparr>ha_machine_id = 1, ha_health_status = Warning,
         ha_failure_prediction =
           \<lparr>failure_probability = 0, confidence = 0, time_to_failure_hours = None,
            contributing_factors = []\<rparr>,
         ha_anomalies = [],
         ha_threshold_violations =
           [\<lparr>v_sensor_type = ''temperature'', v_value = 95, threshold_min = -10,
             threshold_max = 80, v_severity = Medium, v_timestamp = 0\<rparr>]\<rparr>"
proof -
  have p0: "preprocess_sensor_data [] = empty_frame"
    by (simp add: preprocess_sensor_data_def)
  have p1: "preprocess_sensor_data
       [\<lparr>r_sensor_type = ''temperature'', r_value = 95, r_timestamp = 0\<rparr>]
     = \<lparr>timestamps = [0], columns = [(''temperature'', [Some 95])]\<rparr>"
    by (simp add: preprocess_sensor_data_def pivot_cell_def series_mean_def dropna_def
        List.map_filter_simps ffill_def bfill_def Let_def)
  show ?thesis
    unfolding conjunct1 [OF health_status_priority] p0 p1
    by (simp add: is_empty_def empty_frame_def detect_anomalies_def PredictiveAnalytics_def
        check_thresholds_def default_thresholds_def nth_cell_def nrows_def rule_violation_def
        predict_failure_probability_def neutral_prediction_def spec_health_status_def)
qed

subsection \<open>Feature builder\<close>

lemma map_of_assign: "map_of (assign cols n xs) = (map_of cols)(n \<mapsto> xs)"
  by (induction cols n xs rule: assign.induct) (auto simp: fun_eq_iff)

lemma map_of_fill:
  "map_of (map (\<lambda>(n, xs). (n, fillna d xs)) cols) k = map_option (fillna d) (map_of cols k)"
  by (induction cols) auto

lemma add_features_other:
  "k \<notin> set (derived_names col) \<Longrightarrow> map_of (add_features col cols) k = map_of cols k"
  by (simp add: add_features_def derived_names_def map_of_assign Let_def split: option.splits)


lemma fold_add_features_other:
  "(\<And>c. c \<in> set cs \<Longrightarrow> k \<notin> set (derived_names c)) \<Longrightarrow>
     map_of (fold add_features cs cols) k = map_of cols k"
  by (induction cs arbitrary: cols) (simp_all add: add_features_other)



lemma channel_not_derived:
  "col \<in> set feature_columns \<Longrightarrow> c \<in> set feature_columns \<Longrightarrow> col \<notin> set (derived_names c)"
  by (auto simp: feature_columns_def derived_names_def)











lemma length_fillna [simp]: "length (fillna d xs) = length xs"
  by (simp add: fillna_def)

lemma length_rolling_std [simp]: "length (rolling_std w xs) = length xs"
  by (simp add: rolling_std_def)

lemma length_diff [simp]: "length (diff xs) = length xs"
  by (cases xs) (simp_all add: diff_def)

lemma fillna_no_nan: "None \<notin> set (fillna d xs)"
  by (auto simp: fillna_def split: option.splits)

lemma create_features_no_nan:
  assumes "\<not> is_empty df" "(n, ys) \<in> set (columns (create_features df))"
  shows "None \<notin> set ys"
  using assms fillna_no_nan by (auto simp: create_features_def)

lemma create_features_column:
  assumes "\<not> is_empty df"
  shows "map_of (columns (create_features df)) k =
           map_option (fillna 0) (map_of (fold add_features feature_columns (columns df)) k)"
  using assms by (simp add: create_features_def map_of_fill)






subsection \<open>Failure predictor\<close>

lemma those_no_nan: "None \<notin> set xs \<Longrightarrow> those xs = Some (dropna xs)"
proof (induction xs)
  case Nil
  then show ?case by (simp add: dropna_def List.map_filter_simps)
next
  case (Cons a xs)
  then obtain v where a: "a = Some v" by (cases a) auto
  from Cons have "those xs = Some (dropna xs)" by simp
  then show ?case by (simp add: a dropna_def List.map_filter_simps)
qed

lemma those_map_Some: "those (map (\<lambda>x. Some (g x)) xs) = Some (map g xs)"
  by (induction xs) auto

lemma trend_of_features:
  assumes "\<not> is_empty df"
  shows "trend_of (create_features df) sensor = Some (trailing_slope (create_features df) sensor)"
proof (cases "map_of (columns (create_features df)) sensor")
  case None
  then show ?thesis by (simp add: trend_of_def trailing_slope_def)
next
  case (Some xs)
  then have "(sensor, xs) \<in> set (columns (create_features df))" by (rule map_of_SomeD)
  then have "None \<notin> set xs" using create_features_no_nan[OF assms] by blast
  then have "None \<notin> set (tail 20 xs)"
    unfolding tail_def using set_drop_subset by fastforce
  then have "those (tail 20 xs) = Some (dropna (tail 20 xs))" by (rule those_no_nan)
  then show ?thesis using Some by (simp add: trend_of_def trailing_slope_def Let_def)
qed

lemma map_of_trends:
  "map_of (concat (map (\<lambda>(sensor, t). case t of None \<Rightarrow> [] | Some slope \<Rightarrow> [(sensor, slope)])
                     (zip cs (map ts cs)))) k
     = (if k \<in> set cs then ts k else None)"
  by (induction cs) (auto split: option.splits)

lemma compute_trends_features:
  assumes "\<not> is_empty df"
  shows "\<exists>trends. compute_trends (create_features df) = Some trends
           \<and> (\<forall>k \<in> set feature_columns. map_of trends k = trailing_slope (create_features df) k)"
proof -
  have "map (trend_of (create_features df)) feature_columns =
          map (\<lambda>s. Some (trailing_slope (create_features df) s)) feature_columns"
    by (simp add: trend_of_features[OF assms])
  then have "compute_trends (create_features df) =
      Some (concat (map (\<lambda>(sensor, t). case t of None \<Rightarrow> [] | Some slope \<Rightarrow> [(sensor, slope)])
                      (zip feature_columns
                         (map (trailing_slope (create_features df)) feature_columns))))"
    unfolding compute_trends_def by (simp only: those_map_Some option.map)
  then show ?thesis by (simp add: map_of_trends)
qed



lemma indicator_steps:
  "anomalies_step ra (humidity_step trends (vibration_step trends (temperature_step trends (0, []))))
     = (spec_indicator_points (map_of trends ''temperature'') (map_of trends ''vibration'')
          (map_of trends ''humidity'') (length ra),
        spec_factors (map_of trends ''temperature'') (map_of trends ''vibration'')
          (map_of trends ''humidity'') (length ra))"
  by (cases "map_of trends ''temperature''"; cases "map_of trends ''vibration''";
      cases "map_of trends ''humidity''"; cases ra)
     (simp_all add: anomalies_step_def humidity_step_def vibration_step_def temperature_step_def
        spec_indicator_points_def spec_factors_def)

text \<open>
  C5. For every frame with at least 10 rows, the failure probability is
  min(points / 10, 1), where the points are 2 if the temperature slope over the
  trailing 20 samples exceeds 1.0, plus 2 if the vibration slope exceeds 0.5, plus 1 if
  the absolute humidity slope exceeds 2.0, plus the number of anomalies detected on the
  trailing 10 rows; each of the four contributes its named factor, in that order; the
  confidence is 0.8 above 100 rows and 0.6 otherwise; the time to failure is 24 above
  0.7, 72 above 0.5, 168 above 0.3 and absent otherwise.
\<close>

theorem failure_prediction_scoring:
  assumes "10 \<le> nrows df"
  shows "(let fd = create_features df;
              temperature = trailing_slope fd ''temperature'';
              vibration = trailing_slope fd ''vibration'';
              humidity = trailing_slope fd ''humidity'';
              n_anomalies = length (detect_anomalies pa (tail_frame 10 fd));
              p = min (real (spec_indicator_points temperature vibration humidity n_anomalies) / 10) 1
          in predict_failure_probability pa df =
               \<lparr>failure_probability = p,
                confidence = (if nrows df > 100 then 0.8 else 0.6),
                time_to_failure_hours = spec_time_to_failure p,
                contributing_factors = spec_factors temperature vibration humidity n_anomalies\<rparr>)"
proof -
  have ne: "\<not> is_empty df" using assms by (auto simp: is_empty_def nrows_def)
  from compute_trends_features[OF ne] obtain trends where
    ct: "compute_trends (create_features df) = Some trends"
    and t: "map_of trends ''temperature'' = trailing_slope (create_features df) ''temperature''"
    and v: "map_of trends ''vibration'' = trailing_slope (create_features df) ''vibration''"
    and h: "map_of trends ''humidity'' = trailing_slope (create_features df) ''humidity''"
    by (auto simp: feature_columns_def)
  have nl: "\<not> nrows df < 10" using assms by simp
  show ?thesis
    unfolding predict_failure_probability_def Let_def ct indicator_steps
    by (simp only: ne nl t v h spec_time_to_failure_def if_False option.case prod.case simp_thms)
qed


lemma create_features_channel:
  assumes "\<not> is_empty df" "col \<in> set feature_columns"
  shows "map_of (columns (create_features df)) col = map_option (fillna 0) (map_of (columns df) col)"
  using fold_add_features_other[of feature_columns col "columns df"]
    channel_not_derived[OF assms(2)]
  by (simp add: create_features_column[OF assms(1)])

lemma upt_ten: "[0..<10] = [0, 1, 2, 3, 4, 5, 6, 7, 8, 9]"
  by code_simp

lemma slope_ramp: "polyfit_slope [0, 1, 2, 3, 4, 5, 6, 7, 8, 9] = 1"
  by (simp add: polyfit_slope_def upt_ten Let_def power2_eq_square)

theorem failure_prediction_scoring_witness:
  "predict_failure_probability (PredictiveAnalytics \<lparr>stored_model = None, stored_scaler = None\<rparr>)
     \<lparr>timestamps = [0, 1, 2, 3, 4, 5, 6, 7, 8, 9],
      columns = [(''vibration'', [Some 0, Some 1, Some 2, Some 3, Some 4, Some 5, Some 6, Some 7,
                                  Some 8, Some 9])]\<rparr>
   = \<lparr>failure_probability = 0.2, confidence = 0.6, time_to_failure_hours = None,
      contributing_factors = [''Increasing vibration'']\<rparr>"
proof -
  let ?df = "\<lparr>timestamps = [0, 1, 2, 3, 4, 5, 6, 7, 8, 9],
      columns = [(''vibration'', [Some 0, Some 1, Some 2, Some 3, Some 4, Some 5, Some 6, Some 7,
                                  Some 8, Some (9::real)])]\<rparr>"
  let ?pa = "PredictiveAnalytics \<lparr>stored_model = None, stored_scaler = None\<rparr>"
  have ne: "\<not> is_empty ?df" by (simp add: is_empty_def)
  have n: "10 \<le> nrows ?df" "\<not> 100 < nrows ?df" by (simp_all add: nrows_def)
  have vib: "trailing_slope (create_features ?df) ''vibration'' = Some 1"
    by (simp add: trailing_slope_def create_features_channel[OF ne] feature_columns_def
        fillna_def tail_def dropna_def List.map_filter_simps slope_ramp)
  have tem: "trailing_slope (create_features ?df) ''temperature'' = None"
    by (simp add: trailing_slope_def create_features_channel[OF ne] feature_columns_def)
  have hum: "trailing_slope (create_features ?df) ''humidity'' = None"
    by (simp add: trailing_slope_def create_features_channel[OF ne] feature_columns_def)
  have an: "detect_anomalies ?pa (tail_frame 10 (create_features ?df)) = []"
    by (simp add: detect_anomalies_def PredictiveAnalytics_def)
  show ?thesis
    using failure_prediction_scoring[OF n(1), of ?pa]
    unfolding Let_def vib tem hum an
    by (simp add: n(2) spec_indicator_points_def spec_factors_def spec_time_to_failure_def)
qed

end
